theory Spec2Isabelle
  imports Main "HOL-Library.Sublist"
begin

section \<open>Python strings\<close>

text \<open>
  A Python \<open>str\<close> is a sequence of Unicode code points. The prompt template and the
  console messages of the repository hold code points beyond ASCII (the bullet U+2022),
  so a string is modelled as the list of its code points; \<open>ascii\<close> embeds an ASCII
  literal.
\<close>

type_synonym str = "nat list"

definition ascii :: "string \<Rightarrow> str" where
  "ascii s = map of_char s"

text \<open>\<^verbatim>\<open>sep.join(xs)\<close>\<close>

fun join :: "str \<Rightarrow> str list \<Rightarrow> str" where
  "join sep [] = []"
| "join sep [x] = x"
| "join sep (x # y # ys) = x @ sep @ join sep (y # ys)"

text \<open>
  \<^verbatim>\<open>str.isspace\<close> on one code point, the characters \<^verbatim>\<open>str.strip()\<close> removes:
  U+0009..U+000D, U+001C..U+0020, U+0085, U+00A0, U+1680, U+2000..U+200A, U+2028,
  U+2029, U+202F, U+205F, U+3000.
\<close>

definition isspace :: "nat \<Rightarrow> bool" where
  "isspace c \<longleftrightarrow>
     (9 \<le> c \<and> c \<le> 13) \<or> (28 \<le> c \<and> c \<le> 32) \<or> c = 133 \<or> c = 160 \<or> c = 5760 \<or>
     (8192 \<le> c \<and> c \<le> 8202) \<or> c = 8232 \<or> c = 8233 \<or> c = 8239 \<or> c = 8287 \<or> c = 12288"

text \<open>\<^verbatim>\<open>s.strip()\<close>: leading and trailing whitespace removed.\<close>

definition strip :: "str \<Rightarrow> str" where
  "strip s = rev (dropWhile isspace (rev (dropWhile isspace s)))"

text \<open>
  The line boundaries of \<^verbatim>\<open>str.splitlines()\<close>: LF, VT, FF, CR, FS, GS, RS, NEL, LS, PS;
  CR LF counts as one boundary.
\<close>

definition is_linebreak :: "nat \<Rightarrow> bool" where
  "is_linebreak c \<longleftrightarrow>
     (10 \<le> c \<and> c \<le> 13) \<or> (28 \<le> c \<and> c \<le> 30) \<or> c = 133 \<or> c = 8232 \<or> c = 8233"

text \<open>
  \<^verbatim>\<open>s.splitlines()\<close>, with the line read so far as first argument. A boundary ends the
  current line; no empty last line is produced after a final boundary.
\<close>

fun splitlines_from :: "str \<Rightarrow> str \<Rightarrow> str list" where
  "splitlines_from cur [] = (if cur = [] then [] else [cur])"
| "splitlines_from cur [c] = (if is_linebreak c then [cur] else [cur @ [c]])"
| "splitlines_from cur (c # d # cs) =
     (if c = 13 \<and> d = 10 then cur # splitlines_from [] cs
      else if is_linebreak c then cur # splitlines_from [] (d # cs)
      else splitlines_from (cur @ [c]) (d # cs))"

definition splitlines :: "str \<Rightarrow> str list" where
  "splitlines s = splitlines_from [] s"

section \<open>rag\_utils.py: the prompt template\<close>

text \<open>
  \<^verbatim>\<open>str.format(**kwargs)\<close>, which \<^verbatim>\<open>PromptTemplate.format\<close> applies to its template:
  literal text is copied, \<^verbatim>\<open>{{\<close> and \<^verbatim>\<open>}}\<close> stand for one brace, and \<^verbatim>\<open>{name}\<close> is replaced
  by the keyword argument of that name. The replacement text is not scanned again. A
  lone brace is a ValueError and a name without argument a KeyError (the empty field
  \<^verbatim>\<open>{}\<close>, a positional argument where there is none, is reported as \<open>Key_error []\<close>); the
  first error from the left is the one raised. Conversions (\<^verbatim>\<open>!r\<close>), format specifications (\<^verbatim>\<open>:>10\<close>)
  and attribute or index lookups do not occur in the template of this repository; the
  model reports such a field as \<open>Unsupported_field\<close>.
\<close>

datatype format_error =
    Single_open_brace
  | Single_close_brace
  | Expected_close_brace
  | Key_error str
  | Unsupported_field str

datatype scan_mode = Literal | In_field str

definition lbrace :: nat where "lbrace = 123"
definition rbrace :: nat where "rbrace = 125"

definition plain_field_name :: "str \<Rightarrow> bool" where
  "plain_field_name name \<longleftrightarrow>
     list_all (\<lambda>c. c \<noteq> lbrace \<and> c \<noteq> 33 \<and> c \<noteq> 58 \<and> c \<noteq> 46 \<and> c \<noteq> 91) name"

definition prepend :: "str \<Rightarrow> format_error + str \<Rightarrow> format_error + str" where
  "prepend v r = (case r of Inl e \<Rightarrow> Inl e | Inr s \<Rightarrow> Inr (v @ s))"

fun format_from :: "scan_mode \<Rightarrow> str \<Rightarrow> (str \<rightharpoonup> str) \<Rightarrow> format_error + str" where
  "format_from Literal [] kw = Inr []"
| "format_from Literal [c] kw =
     (if c = lbrace then Inl Single_open_brace
      else if c = rbrace then Inl Single_close_brace
      else Inr [c])"
| "format_from Literal (c # d # cs) kw =
     (if c = lbrace then
        (if d = lbrace then prepend [lbrace] (format_from Literal cs kw)
         else format_from (In_field []) (d # cs) kw)
      else if c = rbrace then
        (if d = rbrace then prepend [rbrace] (format_from Literal cs kw)
         else Inl Single_close_brace)
      else prepend [c] (format_from Literal (d # cs) kw))"
| "format_from (In_field name) [] kw = Inl Expected_close_brace"
| "format_from (In_field name) (c # cs) kw =
     (if c = rbrace then
        (if \<not> plain_field_name name then Inl (Unsupported_field name)
         else case kw name of
                None \<Rightarrow> Inl (Key_error name)
              | Some v \<Rightarrow> prepend v (format_from Literal cs kw))
      else format_from (In_field (name @ [c])) cs kw)"

definition str_format :: "str \<Rightarrow> (str \<rightharpoonup> str) \<Rightarrow> format_error + str" where
  "str_format template kw = format_from Literal template kw"

text \<open>The instruction to admit ignorance, as it stands in the template.\<close>

definition ignorance_instruction :: str where
  "ignorance_instruction = ascii ''I don't have that information in my documents.''"

text \<open>
  \<^verbatim>\<open>prompt_tpl.template\<close>. The triple-quoted literal starts and ends with a newline; the
  five guideline lines start with a bullet (U+2022); \<open>34\<close> is the double quote.
  \<open>preamble\<close> is the literal up to the line \<^verbatim>\<open>Context:\<close>, the rest holds the two
  replacement fields.
\<close>

definition preamble :: str where
  "preamble =
     ascii ''\<newline>You are a friendly and helpful travel assistant. Answer the user's question using ONLY the provided context.\<newline>\<newline>Guidelines:\<newline>''
     @ [8226] @ ascii '' Be concise but informative\<newline>''
     @ [8226] @ ascii '' If the answer is in the context, provide it directly\<newline>''
     @ [8226] @ ascii '' If you don't know or it's not in the context, say '' @ [34]
     @ ignorance_instruction @ [34] @ ascii ''\<newline>''
     @ [8226] @ ascii '' Use a warm, helpful tone\<newline>''
     @ [8226] @ ascii '' End with a brief follow-up like '' @ [34]
     @ ascii ''Is there anything else you'd like to know?'' @ [34] @ ascii ''\<newline>''
     @ ascii ''\<newline>Context:\<newline>''"

definition template :: str where
  "template =
     preamble @ ascii ''{context}\<newline>\<newline>Question:\<newline>{question}\<newline>\<newline>Answer:\<newline>''"

text \<open>The literal text after each of the two fields.\<close>

definition question_label :: str where
  "question_label = ascii ''\<newline>\<newline>Question:\<newline>''"

definition answer_label :: str where
  "answer_label = ascii ''\<newline>\<newline>Answer:\<newline>''"

text \<open>\<^verbatim>\<open>prompt_tpl.format(context=context, question=question)\<close>\<close>

definition prompt_format :: "str \<Rightarrow> str \<Rightarrow> format_error + str" where
  "prompt_format context question =
     str_format template [ascii ''context'' \<mapsto> context, ascii ''question'' \<mapsto> question]"

text \<open>
  The text the template renders to; \<open>prompt_format_eq\<close> below proves that
  \<open>prompt_format\<close> returns it.
\<close>

definition rendered_prompt :: "str \<Rightarrow> str \<Rightarrow> str" where
  "rendered_prompt c q = preamble @ c @ question_label @ q @ answer_label"

section \<open>rag\_utils.py: load\_and\_chunk\<close>

text \<open>
  The folder is given by what \<^verbatim>\<open>data_dir.glob("*.txt")\<close> yields: the matched paths in the
  order of the iteration, each with its \<^verbatim>\<open>fp.name\<close> and the outcome of
  \<^verbatim>\<open>fp.read_text(encoding="utf-8", errors="ignore")\<close>, which returns the decoded text or
  raises (the exception is kept by its message). With \<^verbatim>\<open>errors="ignore"\<close> undecodable
  bytes are dropped by the decoder and do not raise.
\<close>

datatype read_result = Read_ok str | Read_raises str

type_synonym txt_file = "str \<times> read_result"

type_synonym metadata = "str \<rightharpoonup> str"

text \<open>What \<^verbatim>\<open>print\<close> writes: the warning of the except branch and the final summary.\<close>

datatype console = Could_not_read str str | Loaded nat nat

text \<open>
  \<^verbatim>\<open>"\n".join([ln.strip() for ln in raw.splitlines() if ln.strip()])\<close>; an empty string is
  the falsy one.
\<close>

definition clean :: "str \<Rightarrow> str" where
  "clean raw = join [10] (map strip (filter (\<lambda>ln. strip ln \<noteq> []) (splitlines raw)))"

text \<open>The loop over the files, with \<open>texts\<close>, \<open>metas\<close> and the console as accumulators.\<close>

fun read_loop ::
  "txt_file list \<Rightarrow> str list \<Rightarrow> metadata list \<Rightarrow> console list \<Rightarrow>
   str list \<times> metadata list \<times> console list" where
  "read_loop [] texts metas out = (texts, metas, out)"
| "read_loop ((name, Read_raises e) # fps) texts metas out =
     read_loop fps texts metas (out @ [Could_not_read name e])"
| "read_loop ((name, Read_ok raw) # fps) texts metas out =
     read_loop fps (texts @ [clean raw]) (metas @ [[ascii ''source'' \<mapsto> name]]) out"

text \<open>\<^verbatim>\<open>for c in splitter.split_text(txt): chunks.append(c); chunk_metas.append(meta)\<close>\<close>

fun append_chunks ::
  "str list \<Rightarrow> metadata \<Rightarrow> str list \<Rightarrow> metadata list \<Rightarrow> str list \<times> metadata list" where
  "append_chunks [] meta chunks chunk_metas = (chunks, chunk_metas)"
| "append_chunks (c # cs) meta chunks chunk_metas =
     append_chunks cs meta (chunks @ [c]) (chunk_metas @ [meta])"

text \<open>\<^verbatim>\<open>for txt, meta in zip(texts, metas): ...\<close>\<close>

fun chunk_loop ::
  "(str \<Rightarrow> str list) \<Rightarrow> (str \<times> metadata) list \<Rightarrow> str list \<Rightarrow> metadata list \<Rightarrow>
   str list \<times> metadata list" where
  "chunk_loop split_text [] chunks chunk_metas = (chunks, chunk_metas)"
| "chunk_loop split_text ((txt, meta) # rest) chunks chunk_metas =
     (case append_chunks (split_text txt) meta chunks chunk_metas of
        (chunks', chunk_metas') \<Rightarrow> chunk_loop split_text rest chunks' chunk_metas')"

text \<open>
  \<^verbatim>\<open>load_and_chunk(folder, chunk_size, overlap)\<close>. The text splitter is a class of the
  langchain library, not of this repository: \<open>splitter chunk_size overlap\<close> stands for
  \<^verbatim>\<open>RecursiveCharacterTextSplitter(chunk_size=chunk_size, chunk_overlap=overlap).split_text\<close>
  and is a parameter. The result is the returned pair and the console output.
\<close>

definition load_and_chunk ::
  "(int \<Rightarrow> int \<Rightarrow> str \<Rightarrow> str list) \<Rightarrow> txt_file list \<Rightarrow> int \<Rightarrow> int \<Rightarrow>
   (str list \<times> metadata list) \<times> console list" where
  "load_and_chunk splitter folder chunk_size overlap =
     (case read_loop folder [] [] [] of
        (texts, metas, out) \<Rightarrow>
          (case chunk_loop (splitter chunk_size overlap) (zip texts metas) [] [] of
             (chunks, chunk_metas) \<Rightarrow>
               ((chunks, chunk_metas), out @ [Loaded (length texts) (length chunks)])))"

text \<open>
  For stating what \<open>load_and_chunk\<close> returns: the files that were read, with their raw
  text; the warnings printed for the others; the metadata record of a file; and the
  chunks of the readable files in order, each paired with the record of its file.
\<close>

fun readable :: "txt_file list \<Rightarrow> (str \<times> str) list" where
  "readable [] = []"
| "readable ((name, Read_raises e) # fps) = readable fps"
| "readable ((name, Read_ok raw) # fps) = (name, raw) # readable fps"

fun warnings :: "txt_file list \<Rightarrow> console list" where
  "warnings [] = []"
| "warnings ((name, Read_raises e) # fps) = Could_not_read name e # warnings fps"
| "warnings ((name, Read_ok raw) # fps) = warnings fps"

definition source_of :: "str \<Rightarrow> metadata" where
  "source_of name = [ascii ''source'' \<mapsto> name]"

definition tagged_chunks ::
  "(int \<Rightarrow> int \<Rightarrow> str \<Rightarrow> str list) \<Rightarrow> int \<Rightarrow> int \<Rightarrow> (str \<times> str) list \<Rightarrow> (str \<times> metadata) list" where
  "tagged_chunks splitter chunk_size overlap rs =
     concat (map (\<lambda>(name, raw). map (\<lambda>c. (c, source_of name)) (splitter chunk_size overlap (clean raw))) rs)"

section \<open>chatbot.py: one query turn\<close>

datatype message = HumanMessage str | AIMessage str

record document =
  page_content :: str
  metadata :: "str \<rightharpoonup> str"

text \<open>\<^verbatim>\<open>st.session_state\<close>: the conversation history and the last retrieved documents.\<close>

record session_state =
  history :: "message list"
  last_docs :: "document list"

text \<open>The sidebar settings a turn reads.\<close>

record settings =
  k_docs :: int
  show_debug :: bool

text \<open>
  The built index and the chat model are objects of external libraries. A turn sees them
  through one call each: \<^verbatim>\<open>store.similarity_search(user_input, k=k_docs)\<close> returns documents
  or raises, and \<^verbatim>\<open>llm.stream(messages)\<close> yields finitely many chunks, each with a
  \<^verbatim>\<open>content\<close> that is a string or \<^verbatim>\<open>None\<close>, and then is exhausted or raises.
\<close>

type_synonym vector_store = "str \<Rightarrow> int \<Rightarrow> str + document list"

datatype stream_end = Exhausted | Raises str

type_synonym chat_model = "str \<Rightarrow> str option list \<times> stream_end"

text \<open>What the turn shows: the calls on \<^verbatim>\<open>st\<close> and on \<^verbatim>\<open>response_placeholder\<close>.\<close>

datatype ui =
    User_bubble str
  | St_error str
  | St_info str
  | Debug_prompt str
  | Streaming_bubble str
  | Final_bubble str
  | Placeholder_empty

definition MAX_HISTORY_TURNS :: nat where
  "MAX_HISTORY_TURNS = 10"

text \<open>
  The trimming step. For \<open>n > 0\<close> the slice \<^verbatim>\<open>h[-n:]\<close> is the last \<open>n\<close> entries of \<open>h\<close>.
\<close>

definition trim_history :: "message list \<Rightarrow> message list" where
  "trim_history h =
     (if length h > MAX_HISTORY_TURNS * 2
      then drop (length h - MAX_HISTORY_TURNS * 2) h
      else h)"

text \<open>The first try block: retrieval. The result is \<open>(context, last_docs, shown)\<close>.\<close>

definition retrieve :: "vector_store \<Rightarrow> int \<Rightarrow> str \<Rightarrow> str \<times> document list \<times> ui list" where
  "retrieve store k user_input =
     (case store user_input k of
        Inr docs \<Rightarrow> (join [10, 10] (map page_content docs), docs, [])
      | Inl e \<Rightarrow> ([], [], [St_error (ascii '' Retrieval error: '' @ e)]))"

text \<open>\<^verbatim>\<open>chunk.content or ""\<close>\<close>

definition content_or_empty :: "str option \<Rightarrow> str" where
  "content_or_empty c = (case c of None \<Rightarrow> [] | Some s \<Rightarrow> s)"

text \<open>The streaming loop: each chunk is added to \<open>collected_response\<close> and shown.\<close>

fun stream_loop :: "str \<Rightarrow> str option list \<Rightarrow> str \<times> ui list" where
  "stream_loop collected [] = (collected, [])"
| "stream_loop collected (c # cs) =
     (case stream_loop (collected @ content_or_empty c) cs of
        (final, shown) \<Rightarrow> (final, Streaming_bubble (collected @ content_or_empty c) # shown))"

definition error_reply :: str where
  "error_reply = ascii ''I encountered an error. Please check your API key or try again.''"

text \<open>
  The second try block: generation. The result is \<open>collected_response\<close> as it stands after
  the block, and what was shown. The elapsed time of the final bubble is not modelled.
\<close>

definition generate :: "chat_model \<Rightarrow> str \<Rightarrow> str \<times> ui list" where
  "generate llm full_prompt =
     (case llm full_prompt of
        (fragments, ending) \<Rightarrow>
          (case stream_loop [] fragments of
             (collected_response, shown) \<Rightarrow>
               (case ending of
                  Exhausted \<Rightarrow> (collected_response, shown @ [Final_bubble collected_response])
                | Raises e \<Rightarrow>
                    (error_reply,
                     shown @ [St_error (ascii '' API Error: '' @ e),
                              St_info (ascii '' Check your API key or try a different model.''),
                              Placeholder_empty]))))"

text \<open>
  The body of \<^verbatim>\<open>if user_input:\<close>. The result is the exception that ended the script run, if
  any (only \<^verbatim>\<open>prompt_tpl.format\<close> is outside a try block), the session state and what was
  shown.
\<close>

definition query_turn ::
  "settings \<Rightarrow> vector_store \<Rightarrow> chat_model \<Rightarrow> str \<Rightarrow> session_state \<Rightarrow>
   format_error option \<times> session_state \<times> ui list" where
  "query_turn cfg store llm user_input s =
     (let h = trim_history (history s @ [HumanMessage user_input])
      in case retrieve store (k_docs cfg) user_input of
           (context, docs, warned) \<Rightarrow>
             (case prompt_format context user_input of
                Inl err \<Rightarrow>
                  (Some err, s\<lparr>history := h, last_docs := docs\<rparr>,
                   User_bubble user_input # warned)
              | Inr full_prompt \<Rightarrow>
                  (case generate llm full_prompt of
                     (collected_response, shown) \<Rightarrow>
                       (None,
                        s\<lparr>history := h @ [AIMessage collected_response], last_docs := docs\<rparr>,
                        User_bubble user_input # warned
                          @ (if show_debug cfg then [Debug_prompt full_prompt] else [])
                          @ shown))))"

text \<open>A session: the queries of \<open>us\<close> one after the other.\<close>

fun run_queries ::
  "settings \<Rightarrow> vector_store \<Rightarrow> chat_model \<Rightarrow> str list \<Rightarrow> session_state \<Rightarrow> session_state" where
  "run_queries cfg store llm [] s = s"
| "run_queries cfg store llm (u # us) s =
     run_queries cfg store llm us (fst (snd (query_turn cfg store llm u s)))"

section \<open>Example inputs\<close>

text \<open>
  Concrete settings, services and sessions, at which the theorems below are evaluated.
  \<open>fresh_session\<close> is the session state as chatbot.py initialises it.
\<close>

definition example_settings :: settings where
  "example_settings = \<lparr>k_docs = 3, show_debug = False\<rparr>"

definition fresh_session :: session_state where
  "fresh_session = \<lparr>history = [], last_docs = []\<rparr>"

definition empty_store :: vector_store where
  "empty_store query k = Inr []"

definition failing_store :: vector_store where
  "failing_store query k = Inl (ascii ''index unavailable'')"

definition ok_model :: chat_model where
  "ok_model p = ([Some (ascii ''Hello''), None, Some (ascii '' there'')], Exhausted)"

definition failing_model :: chat_model where
  "failing_model p = ([Some (ascii ''Hel''), Some (ascii ''lo'')], Raises (ascii ''timeout''))"

definition failing_at_once :: chat_model where
  "failing_at_once p = ([], Raises (ascii ''timeout''))"

definition eleven_questions :: "str list" where
  "eleven_questions = map (\<lambda>i. [48 + i]) [0, 1, 2, 3, 4, 5, 6, 7, 8, 9, 10]"

definition twenty_five_turns :: "message list" where
  "twenty_five_turns =
     map (\<lambda>i. if even i then HumanMessage [i] else AIMessage [i]) [0..<25]"

text \<open>
  A folder of three files, one of them unreadable, and a stand-in for the library's
  splitter that returns two overlapping pieces.
\<close>

definition two_piece_splitter :: "int \<Rightarrow> int \<Rightarrow> str \<Rightarrow> str list" where
  "two_piece_splitter chunk_size overlap txt =
     [take (nat chunk_size) txt, drop (nat chunk_size - nat overlap) txt]"

definition example_folder :: "txt_file list" where
  "example_folder =
     [(ascii ''halifax.txt'', Read_ok (ascii '' Halifax \<newline>\<newline> kayak tours\<newline>'')),
      (ascii ''locked.txt'', Read_raises (ascii ''Permission denied'')),
      (ascii ''wifi.txt'', Read_ok (ascii ''WiFi in the lobby''))]"

section \<open>Properties of the prompt template\<close>

lemma prepend_prepend: "prepend a (prepend b r) = prepend (a @ b) r"
  by (cases r) (simp_all add: prepend_def)

lemma format_literal:
  "list_all (\<lambda>c. c \<noteq> lbrace \<and> c \<noteq> rbrace) l \<Longrightarrow>
   format_from Literal (l @ rest) kw = prepend l (format_from Literal rest kw)"
proof (induction l)
  case Nil
  show ?case by (cases "format_from Literal rest kw") (simp_all add: prepend_def)
next
  case (Cons a l)
  then have a: "a \<noteq> lbrace" "a \<noteq> rbrace" and l: "list_all (\<lambda>c. c \<noteq> lbrace \<and> c \<noteq> rbrace) l"
    by simp_all
  show ?case
  proof (cases "l @ rest")
    case Nil
    then show ?thesis using a by (simp add: prepend_def)
  next
    case (Cons d ds)
    then have "format_from Literal (a # l @ rest) kw = prepend [a] (format_from Literal (l @ rest) kw)"
      using a by simp
    then show ?thesis using Cons.IH [OF l] by (simp add: prepend_prepend)
  qed
qed

lemma format_in_field:
  "rbrace \<notin> set name \<Longrightarrow>
   format_from (In_field acc) (name @ rbrace # rest) kw =
     (if \<not> plain_field_name (acc @ name) then Inl (Unsupported_field (acc @ name))
      else case kw (acc @ name) of
             None \<Rightarrow> Inl (Key_error (acc @ name))
           | Some v \<Rightarrow> prepend v (format_from Literal rest kw))"
  by (induction name arbitrary: acc) (simp_all split: option.split)

lemma format_field:
  assumes "name \<noteq> []" "hd name \<noteq> lbrace" "rbrace \<notin> set name" "plain_field_name name" "kw name = Some v"
  shows "format_from Literal (lbrace # name @ rbrace # rest) kw = prepend v (format_from Literal rest kw)"
proof -
  obtain d ds where n: "name = d # ds" using assms(1) by (cases name) auto
  then have "format_from Literal (lbrace # name @ rbrace # rest) kw
     = format_from (In_field []) (name @ rbrace # rest) kw" using assms(2) by simp
  then show ?thesis using format_in_field [OF assms(3), of "[]" rest kw] assms(4,5) by simp
qed

lemma template_fields:
  "template = preamble @ lbrace # ascii ''context'' @ rbrace # question_label
                @ lbrace # ascii ''question'' @ rbrace # answer_label"
  by (simp add: template_def ascii_def lbrace_def rbrace_def question_label_def answer_label_def)

lemma preamble_no_brace: "list_all (\<lambda>c. c \<noteq> lbrace \<and> c \<noteq> rbrace) preamble"
  by (simp add: preamble_def ignorance_instruction_def ascii_def lbrace_def rbrace_def)

lemma labels_no_brace:
  "list_all (\<lambda>c. c \<noteq> lbrace \<and> c \<noteq> rbrace) question_label"
  "list_all (\<lambda>c. c \<noteq> lbrace \<and> c \<noteq> rbrace) answer_label"
  by (simp_all add: question_label_def answer_label_def ascii_def lbrace_def rbrace_def)

lemma field_names:
  "ascii ''context'' \<noteq> []" "hd (ascii ''context'') \<noteq> lbrace" "rbrace \<notin> set (ascii ''context'')"
  "plain_field_name (ascii ''context'')"
  "ascii ''question'' \<noteq> []" "hd (ascii ''question'') \<noteq> lbrace" "rbrace \<notin> set (ascii ''question'')"
  "plain_field_name (ascii ''question'')"
  "ascii ''context'' \<noteq> ascii ''question''"
  by (simp_all add: ascii_def lbrace_def rbrace_def plain_field_name_def)

lemma prompt_format_eq:
  "prompt_format c q = Inr (preamble @ c @ question_label @ q @ answer_label)"
proof -
  let ?kw = "[ascii ''context'' \<mapsto> c, ascii ''question'' \<mapsto> q]"
  have kc: "?kw (ascii ''context'') = Some c" using field_names(9) by simp
  have kq: "?kw (ascii ''question'') = Some q" by simp
  have 1: "format_from Literal answer_label ?kw = Inr answer_label"
    using format_literal [OF labels_no_brace(2), of "[]" ?kw] by (simp add: prepend_def)
  have 2: "format_from Literal (lbrace # ascii ''question'' @ rbrace # answer_label) ?kw
            = Inr (q @ answer_label)"
    using format_field [of "ascii ''question''" ?kw q answer_label] field_names(5-8) kq 1
    by (simp add: prepend_def)
  have 3: "format_from Literal (question_label @ lbrace # ascii ''question'' @ rbrace # answer_label) ?kw
            = Inr (question_label @ q @ answer_label)"
    using format_literal [OF labels_no_brace(1)] 2 by (simp add: prepend_def)
  have 4: "format_from Literal (lbrace # ascii ''context'' @ rbrace # question_label
              @ lbrace # ascii ''question'' @ rbrace # answer_label) ?kw
            = Inr (c @ question_label @ q @ answer_label)"
    using format_field [of "ascii ''context''" ?kw c] field_names(1-4) kc 3
    by (simp add: prepend_def)
  have 5: "format_from Literal template ?kw = Inr (preamble @ c @ question_label @ q @ answer_label)"
    unfolding template_fields using format_literal [OF preamble_no_brace] 4 by (simp add: prepend_def)
  then show ?thesis by (simp add: prompt_format_def str_format_def)
qed




section \<open>Properties of a query turn\<close>

lemma trim_history_eq: "trim_history h = drop (length h - 20) h"
  by (simp add: trim_history_def MAX_HISTORY_TURNS_def)

lemma trim_history_length: "length (trim_history h) \<le> 20"
  by (simp add: trim_history_eq)

lemma stream_loop_fst: "fst (stream_loop acc fs) = acc @ concat (map content_or_empty fs)"
  by (induction fs arbitrary: acc) (simp_all add: split_beta)

lemma generate_raises: "llm p = (fs, Raises e) \<Longrightarrow> fst (generate llm p) = error_reply"
  by (simp add: generate_def split_beta)

lemma generate_exhausted:
  "llm p = (fs, Exhausted) \<Longrightarrow> fst (generate llm p) = concat (map content_or_empty fs)"
  using stream_loop_fst [of "[]" fs] by (simp add: generate_def split_beta)

lemma query_turn_eq:
  "query_turn cfg store llm u s =
     (None,
      s\<lparr>history := trim_history (history s @ [HumanMessage u])
           @ [AIMessage (fst (generate llm (rendered_prompt (fst (retrieve store (k_docs cfg) u)) u)))],
        last_docs := fst (snd (retrieve store (k_docs cfg) u))\<rparr>,
      User_bubble u # snd (snd (retrieve store (k_docs cfg) u))
        @ (if show_debug cfg
           then [Debug_prompt (rendered_prompt (fst (retrieve store (k_docs cfg) u)) u)] else [])
        @ snd (generate llm (rendered_prompt (fst (retrieve store (k_docs cfg) u)) u)))"
  by (simp add: query_turn_def prompt_format_eq rendered_prompt_def Let_def split_beta)

lemma query_turn_completes: "fst (query_turn cfg store llm u s) = None"
  by (simp add: query_turn_eq)

lemma query_turn_history:
  "history (fst (snd (query_turn cfg store llm u s))) =
     trim_history (history s @ [HumanMessage u])
       @ [AIMessage (fst (generate llm (rendered_prompt (fst (retrieve store (k_docs cfg) u)) u)))]"
  by (simp add: query_turn_eq)

lemma query_turn_last_docs:
  "last_docs (fst (snd (query_turn cfg store llm u s))) = fst (snd (retrieve store (k_docs cfg) u))"
  by (simp add: query_turn_eq)

lemma query_turn_history_length:
  "length (history (fst (snd (query_turn cfg store llm u s)))) = min (length (history s) + 1) 20 + 1"
  by (simp add: query_turn_history trim_history_eq)

lemma trimmed_appends:
  assumes "length h0 \<le> 20"
  shows "foldl (\<lambda>h m. trim_history (h @ [m])) h0 ms = drop (length (h0 @ ms) - 20) (h0 @ ms)"
  using assms
proof (induction ms rule: rev_induct)
  case Nil
  then show ?case by simp
next
  case (snoc m ms)
  define d where "d = length (h0 @ ms) - 20"
  have app: "drop d (h0 @ ms) @ [m] = drop d ((h0 @ ms) @ [m])"
    by (simp add: d_def)
  have len: "length (drop d ((h0 @ ms) @ [m])) - 20 + d = length ((h0 @ ms) @ [m]) - 20"
    by (simp add: d_def)
  have "foldl (\<lambda>h m. trim_history (h @ [m])) h0 (ms @ [m])
          = trim_history (drop d (h0 @ ms) @ [m])"
    using snoc by (simp add: d_def)
  also have "\<dots> = drop (length (drop d ((h0 @ ms) @ [m])) - 20) (drop d ((h0 @ ms) @ [m]))"
    by (simp only: app trim_history_eq)
  also have "\<dots> = drop (length ((h0 @ ms) @ [m]) - 20) ((h0 @ ms) @ [m])"
    by (simp only: drop_drop len)
  finally show ?case by simp
qed

lemma run_queries_length:
  "length (history (run_queries cfg store llm us s)) =
     (if us = [] then length (history s) else min (length (history s) + 2 * length us) 21)"
proof (induction us arbitrary: s)
  case Nil
  then show ?case by simp
next
  case (Cons u us)
  show ?case
  proof (cases us)
    case Nil
    then show ?thesis by (simp add: query_turn_history_length)
  next
    case (Cons v vs)
    then show ?thesis using Cons.IH [of "fst (snd (query_turn cfg store llm u s))"]
      by (simp add: query_turn_history_length)
  qed
qed

section \<open>Properties of load\_and\_chunk\<close>

lemma read_loop_eq:
  "read_loop fps texts metas out =
     (texts @ map (\<lambda>(name, raw). clean raw) (readable fps),
      metas @ map (\<lambda>(name, raw). source_of name) (readable fps),
      out @ warnings fps)"
  by (induction fps texts metas out rule: read_loop.induct)
    (simp_all add: source_of_def [symmetric])

lemma append_chunks_eq:
  "append_chunks cs meta chunks chunk_metas = (chunks @ cs, chunk_metas @ replicate (length cs) meta)"
  by (induction cs arbitrary: chunks chunk_metas) (simp_all add: replicate_app_Cons_same)

lemma chunk_loop_eq:
  "chunk_loop split_text tms chunks chunk_metas =
     (chunks @ concat (map (\<lambda>(txt, meta). split_text txt) tms),
      chunk_metas @ concat (map (\<lambda>(txt, meta). replicate (length (split_text txt)) meta) tms))"
  by (induction split_text tms chunks chunk_metas rule: chunk_loop.induct)
    (simp_all add: append_chunks_eq)

lemma load_and_chunk_eq:
  "load_and_chunk splitter folder chunk_size overlap =
     ((concat (map (\<lambda>(name, raw). splitter chunk_size overlap (clean raw)) (readable folder)),
       concat (map (\<lambda>(name, raw).
                 replicate (length (splitter chunk_size overlap (clean raw))) (source_of name))
               (readable folder))),
      warnings folder @
        [Loaded (length (readable folder))
           (length (concat (map (\<lambda>(name, raw). splitter chunk_size overlap (clean raw))
                              (readable folder))))])"
  by (simp add: load_and_chunk_def read_loop_eq chunk_loop_eq zip_map_map case_prod_unfold
        zip_same_conv_map comp_def)

lemma readable_iff: "(name, raw) \<in> set (readable fps) \<longleftrightarrow> (name, Read_ok raw) \<in> set fps"
  by (induction fps rule: readable.induct) auto




lemma tagged_chunks_fst:
  "map fst (tagged_chunks splitter chunk_size overlap rs)
     = concat (map (\<lambda>(name, raw). splitter chunk_size overlap (clean raw)) rs)"
  by (induction rs) (simp_all add: tagged_chunks_def split_beta comp_def)

lemma tagged_chunks_snd:
  "map snd (tagged_chunks splitter chunk_size overlap rs)
     = concat (map (\<lambda>(name, raw).
                 replicate (length (splitter chunk_size overlap (clean raw))) (source_of name)) rs)"
  by (induction rs) (simp_all add: tagged_chunks_def split_beta comp_def map_replicate_const)

lemma load_and_chunk_tagged:
  "fst (load_and_chunk splitter folder chunk_size overlap) =
     (map fst (tagged_chunks splitter chunk_size overlap (readable folder)),
      map snd (tagged_chunks splitter chunk_size overlap (readable folder)))"
  by (simp add: load_and_chunk_eq tagged_chunks_fst tagged_chunks_snd)

lemma tagged_chunks_member:
  "(c, m) \<in> set (tagged_chunks splitter chunk_size overlap rs) \<Longrightarrow>
     \<exists>name raw. (name, raw) \<in> set rs \<and> m = source_of name
        \<and> c \<in> set (splitter chunk_size overlap (clean raw))"
  by (auto simp: tagged_chunks_def)

lemma example_load:
  "load_and_chunk two_piece_splitter example_folder 8 2 =
     (([ascii ''Halifax\<newline>'', ascii ''x\<newline>kayak tours'', ascii ''WiFi in '', ascii ''n the lobby''],
       [[ascii ''source'' \<mapsto> ascii ''halifax.txt''], [ascii ''source'' \<mapsto> ascii ''halifax.txt''],
        [ascii ''source'' \<mapsto> ascii ''wifi.txt''], [ascii ''source'' \<mapsto> ascii ''wifi.txt'']]),
      [Could_not_read (ascii ''locked.txt'') (ascii ''Permission denied''), Loaded 2 4])"
  by (simp add: load_and_chunk_def example_folder_def two_piece_splitter_def clean_def
        splitlines_def strip_def isspace_def is_linebreak_def ascii_def)

section \<open>The claims\<close>


text \<open>
  C1, as the code has it. After the trimming step of a query the history holds at most
  2 * max\_turns = 20 entries, the most recent ones in their original order; appending 25
  turns, each followed by the trimming step, leaves exactly the most recent 20 in order.
  The assistant reply is appended after the trimming step and nothing trims again in
  that turn, so at the end of a completed turn the history is the trimmed history with
  the reply as one more entry, at most 2 * max\_turns + 1 = 21 entries.
\<close>

theorem history_bound_after_trimming:
  "length (trim_history h) \<le> 2 * MAX_HISTORY_TURNS
   \<and> trim_history h = drop (length h - 2 * MAX_HISTORY_TURNS) h
   \<and> (length ms = 25 \<longrightarrow>
        foldl (\<lambda>h m. trim_history (h @ [m])) [] ms = drop 5 ms
        \<and> length (foldl (\<lambda>h m. trim_history (h @ [m])) [] ms) = 2 * MAX_HISTORY_TURNS)
   \<and> (\<exists>reply. history (fst (snd (query_turn cfg store llm u s)))
          = trim_history (history s @ [HumanMessage u]) @ [AIMessage reply])
   \<and> length (history (fst (snd (query_turn cfg store llm u s)))) \<le> 2 * MAX_HISTORY_TURNS + 1"
proof -
  have a: "length (trim_history h) \<le> 2 * MAX_HISTORY_TURNS"
    using trim_history_length [of h] by (simp add: MAX_HISTORY_TURNS_def)
  have b: "trim_history h = drop (length h - 2 * MAX_HISTORY_TURNS) h"
    by (simp add: trim_history_eq MAX_HISTORY_TURNS_def)
  have c: "foldl (\<lambda>h m. trim_history (h @ [m])) [] ms = drop 5 ms
        \<and> length (foldl (\<lambda>h m. trim_history (h @ [m])) [] ms) = 2 * MAX_HISTORY_TURNS"
    if "length ms = 25"
    using that trimmed_appends [of "[]" ms] by (simp add: MAX_HISTORY_TURNS_def)
  have d: "\<exists>reply. history (fst (snd (query_turn cfg store llm u s)))
          = trim_history (history s @ [HumanMessage u]) @ [AIMessage reply]"
    by (simp add: query_turn_history)
  have e: "length (history (fst (snd (query_turn cfg store llm u s)))) \<le> 2 * MAX_HISTORY_TURNS + 1"
    by (simp add: query_turn_history_length MAX_HISTORY_TURNS_def)
  show ?thesis using a b c d e by blast
qed

theorem history_bound_after_trimming_witness:
  "length twenty_five_turns = 25
   \<and> foldl (\<lambda>h m. trim_history (h @ [m])) [] twenty_five_turns = drop 5 twenty_five_turns
   \<and> length (foldl (\<lambda>h m. trim_history (h @ [m])) [] twenty_five_turns) = 20
   \<and> length (trim_history twenty_five_turns) \<le> 20"
  using history_bound_after_trimming
    [of twenty_five_turns twenty_five_turns example_settings empty_store ok_model "[48]" fresh_session]
  by (simp add: twenty_five_turns_def MAX_HISTORY_TURNS_def)

text \<open>
  C1 as stated fails: the bound of 20 does not hold after the assistant reply is
  appended. Eleven completed queries on a fresh session leave 21 entries.
\<close>

theorem history_exceeds_bound_after_reply:
  "\<not> length (history (run_queries example_settings empty_store ok_model eleven_questions fresh_session))
       \<le> 2 * MAX_HISTORY_TURNS"
  by (simp only: run_queries_length)
    (simp add: eleven_questions_def fresh_session_def MAX_HISTORY_TURNS_def)

text \<open>
  C3. In a query turn whose streaming call raises, the history after the turn is the
  trimmed history (ending with the user's entry) followed by exactly one new entry, of
  the assistant role, holding the fixed error message. The turn completes, and a
  following query completes as well and appends its own user and assistant entries.
\<close>

theorem failed_generation_appends_one_placeholder:
  assumes "prompt_format (fst (retrieve store (k_docs cfg) u)) u = Inr p"
    and "llm p = (fragments, Raises e)"
  shows "fst (query_turn cfg store llm u s) = None
   \<and> history (fst (snd (query_turn cfg store llm u s)))
        = trim_history (history s @ [HumanMessage u]) @ [AIMessage error_reply]
   \<and> length (history (fst (snd (query_turn cfg store llm u s))))
        = length (trim_history (history s @ [HumanMessage u])) + 1
   \<and> fst (query_turn cfg' store' llm' u' (fst (snd (query_turn cfg store llm u s)))) = None
   \<and> (\<exists>reply. history (fst (snd (query_turn cfg' store' llm' u'
                                      (fst (snd (query_turn cfg store llm u s))))))
        = trim_history (trim_history (history s @ [HumanMessage u]) @ [AIMessage error_reply]
                         @ [HumanMessage u'])
            @ [AIMessage reply])"
proof -
  have p: "p = rendered_prompt (fst (retrieve store (k_docs cfg) u)) u"
    using assms(1) by (simp add: prompt_format_eq rendered_prompt_def)
  have h: "history (fst (snd (query_turn cfg store llm u s)))
        = trim_history (history s @ [HumanMessage u]) @ [AIMessage error_reply]"
    using generate_raises [of llm p fragments e] assms(2) p by (simp add: query_turn_history)
  show ?thesis
    by (simp add: h query_turn_completes query_turn_history [of cfg' store' llm' u'])
qed

theorem failed_generation_appends_one_placeholder_witness:
  "prompt_format (fst (retrieve empty_store (k_docs example_settings) (ascii ''hi''))) (ascii ''hi'')
     = Inr (rendered_prompt [] (ascii ''hi''))
   \<and> failing_model (rendered_prompt [] (ascii ''hi''))
       = ([Some (ascii ''Hel''), Some (ascii ''lo'')], Raises (ascii ''timeout''))
   \<and> history (fst (snd (query_turn example_settings empty_store failing_model (ascii ''hi'')
                          fresh_session)))
       = [HumanMessage (ascii ''hi''), AIMessage error_reply]"
proof -
  have r: "fst (retrieve empty_store (k_docs example_settings) (ascii ''hi'')) = []"
    by (simp add: retrieve_def empty_store_def)
  have a: "prompt_format (fst (retrieve empty_store (k_docs example_settings) (ascii ''hi'')))
             (ascii ''hi'') = Inr (rendered_prompt [] (ascii ''hi''))"
    by (simp add: r prompt_format_eq rendered_prompt_def)
  have b: "failing_model (rendered_prompt [] (ascii ''hi''))
       = ([Some (ascii ''Hel''), Some (ascii ''lo'')], Raises (ascii ''timeout''))"
    by (simp add: failing_model_def)
  show ?thesis
    using failed_generation_appends_one_placeholder
      [where store = empty_store and cfg = example_settings and u = "ascii ''hi''"
         and p = "rendered_prompt [] (ascii ''hi'')" and llm = failing_model
         and fragments = "[Some (ascii ''Hel''), Some (ascii ''lo'')]"
         and e = "ascii ''timeout''" and s = fresh_session]
      a b
    by (simp add: fresh_session_def trim_history_eq)
qed

text \<open>
  C6. In a query turn whose index query raises, the turn goes on: the context given to
  the prompt template is the empty string, the last retrieved documents are set to the
  empty list, the error is shown as a retrieval error, the resulting session state is
  the one an empty result set gives, and a following query completes.
\<close>

theorem retrieval_failure_continues_with_empty_context:
  assumes "store u (k_docs cfg) = Inl e"
  shows "retrieve store (k_docs cfg) u = ([], [], [St_error (ascii '' Retrieval error: '' @ e)])
   \<and> fst (query_turn cfg store llm u s) = None
   \<and> last_docs (fst (snd (query_turn cfg store llm u s))) = []
   \<and> St_error (ascii '' Retrieval error: '' @ e) \<in> set (snd (snd (query_turn cfg store llm u s)))
   \<and> prompt_format [] u = Inr (rendered_prompt [] u)
   \<and> history (fst (snd (query_turn cfg store llm u s)))
        = trim_history (history s @ [HumanMessage u])
            @ [AIMessage (fst (generate llm (rendered_prompt [] u)))]
   \<and> fst (snd (query_turn cfg store llm u s)) = fst (snd (query_turn cfg empty_store llm u s))
   \<and> fst (query_turn cfg' store' llm' u' (fst (snd (query_turn cfg store llm u s)))) = None"
proof -
  have r: "retrieve store (k_docs cfg) u = ([], [], [St_error (ascii '' Retrieval error: '' @ e)])"
    using assms by (simp add: retrieve_def)
  have r0: "retrieve empty_store (k_docs cfg) u = ([], [], [])"
    by (simp add: retrieve_def empty_store_def)
  show ?thesis
    by (simp add: r r0 query_turn_eq prompt_format_eq rendered_prompt_def)
qed

theorem retrieval_failure_continues_with_empty_context_witness:
  "failing_store (ascii ''hi'') (k_docs example_settings) = Inl (ascii ''index unavailable'')
   \<and> last_docs (fst (snd (query_turn example_settings failing_store ok_model (ascii ''hi'')
                            fresh_session))) = []
   \<and> history (fst (snd (query_turn example_settings failing_store ok_model (ascii ''hi'')
                          fresh_session)))
       = [HumanMessage (ascii ''hi''), AIMessage (ascii ''Hello there'')]"
proof -
  have a: "failing_store (ascii ''hi'') (k_docs example_settings) = Inl (ascii ''index unavailable'')"
    by (simp add: failing_store_def)
  have g: "fst (generate ok_model (rendered_prompt [] (ascii ''hi''))) = ascii ''Hello there''"
    using generate_exhausted [of ok_model "rendered_prompt [] (ascii ''hi'')"]
    by (simp add: ok_model_def content_or_empty_def ascii_def)
  note t = retrieval_failure_continues_with_empty_context
      [where store = failing_store and cfg = example_settings and u = "ascii ''hi''"
         and e = "ascii ''index unavailable''" and llm = ok_model and s = fresh_session, OF a]
  have d: "last_docs (fst (snd (query_turn example_settings failing_store ok_model (ascii ''hi'')
                            fresh_session))) = []"
    using t by blast
  have h: "history (fst (snd (query_turn example_settings failing_store ok_model (ascii ''hi'')
                          fresh_session)))
       = trim_history (history fresh_session @ [HumanMessage (ascii ''hi'')])
            @ [AIMessage (fst (generate ok_model (rendered_prompt [] (ascii ''hi''))))]"
    using t by blast
  show ?thesis using a d h g by (simp add: fresh_session_def trim_history_eq)
qed

text \<open>
  C10. When the streaming call raises after fragments have been received, the text
  collected from them is discarded: the entry recorded for the turn is exactly the fixed
  error message, the rest of the history is the trimmed history, the session state does
  not depend on the fragments received (it equals the state of any other failing
  stream), and the placeholder that showed the partial text is emptied last.
\<close>

theorem partial_stream_is_discarded:
  assumes "prompt_format (fst (retrieve store (k_docs cfg) u)) u = Inr p"
    and "llm p = (fragments, Raises e)"
    and "fragments \<noteq> []"
    and "llm' p = (fragments', Raises e')"
  shows "fst (stream_loop [] fragments) = concat (map content_or_empty fragments)
   \<and> fst (generate llm p) = error_reply
   \<and> last (history (fst (snd (query_turn cfg store llm u s)))) = AIMessage error_reply
   \<and> butlast (history (fst (snd (query_turn cfg store llm u s))))
        = trim_history (history s @ [HumanMessage u])
   \<and> fst (snd (query_turn cfg store llm u s)) = fst (snd (query_turn cfg store llm' u s))
   \<and> last (snd (snd (query_turn cfg store llm u s))) = Placeholder_empty"
proof -
  have p: "rendered_prompt (fst (retrieve store (k_docs cfg) u)) u = p"
    using assms(1) by (simp add: prompt_format_eq rendered_prompt_def)
  have g: "fst (generate llm p) = error_reply" "fst (generate llm' p) = error_reply"
    using generate_raises [of llm p fragments e] generate_raises [of llm' p fragments' e']
      assms(2,4) by simp_all
  have shown: "last (snd (generate llm p)) = Placeholder_empty"
    using assms(2) by (simp add: generate_def split_beta)
  have nonempty: "snd (generate llm p) \<noteq> []"
    using assms(2) by (simp add: generate_def split_beta)
  show ?thesis
    using stream_loop_fst [of "[]" fragments] g shown nonempty
    by (simp add: query_turn_eq p)
qed

theorem partial_stream_is_discarded_witness:
  "failing_model (rendered_prompt [] (ascii ''hi''))
       = ([Some (ascii ''Hel''), Some (ascii ''lo'')], Raises (ascii ''timeout''))
   \<and> fst (stream_loop [] [Some (ascii ''Hel''), Some (ascii ''lo'')]) = ascii ''Hello''
   \<and> history (fst (snd (query_turn example_settings empty_store failing_model (ascii ''hi'')
                          fresh_session)))
       = [HumanMessage (ascii ''hi''), AIMessage error_reply]
   \<and> fst (snd (query_turn example_settings empty_store failing_model (ascii ''hi'') fresh_session))
       = fst (snd (query_turn example_settings empty_store failing_at_once (ascii ''hi'')
                     fresh_session))"
proof -
  have r: "fst (retrieve empty_store (k_docs example_settings) (ascii ''hi'')) = []"
    by (simp add: retrieve_def empty_store_def)
  have a: "prompt_format (fst (retrieve empty_store (k_docs example_settings) (ascii ''hi'')))
             (ascii ''hi'') = Inr (rendered_prompt [] (ascii ''hi''))"
    by (simp add: r prompt_format_eq rendered_prompt_def)
  have b: "failing_model (rendered_prompt [] (ascii ''hi''))
       = ([Some (ascii ''Hel''), Some (ascii ''lo'')], Raises (ascii ''timeout''))"
    by (simp add: failing_model_def)
  have c: "[Some (ascii ''Hel''), Some (ascii ''lo'')] \<noteq> []" by simp
  have d: "failing_at_once (rendered_prompt [] (ascii ''hi'')) = ([], Raises (ascii ''timeout''))"
    by (simp add: failing_at_once_def)
  have h: "history (fst (snd (query_turn example_settings empty_store failing_model (ascii ''hi'')
                          fresh_session))) \<noteq> []"
    by (simp add: query_turn_history)
  note t = partial_stream_is_discarded
      [where store = empty_store and cfg = example_settings and u = "ascii ''hi''"
         and p = "rendered_prompt [] (ascii ''hi'')" and llm = failing_model
         and fragments = "[Some (ascii ''Hel''), Some (ascii ''lo'')]"
         and e = "ascii ''timeout''" and llm' = failing_at_once and fragments' = "[]"
         and e' = "ascii ''timeout''" and s = fresh_session, OF a b c d]
  have 1: "fst (stream_loop [] [Some (ascii ''Hel''), Some (ascii ''lo'')])
             = concat (map content_or_empty [Some (ascii ''Hel''), Some (ascii ''lo'')])"
    using t by blast
  have 2: "last (history (fst (snd (query_turn example_settings empty_store failing_model
             (ascii ''hi'') fresh_session)))) = AIMessage error_reply"
    using t by blast
  have 3: "butlast (history (fst (snd (query_turn example_settings empty_store failing_model
             (ascii ''hi'') fresh_session))))
           = trim_history (history fresh_session @ [HumanMessage (ascii ''hi'')])"
    using t by blast
  have 4: "fst (snd (query_turn example_settings empty_store failing_model (ascii ''hi'')
                  fresh_session))
       = fst (snd (query_turn example_settings empty_store failing_at_once (ascii ''hi'')
                     fresh_session))"
    using t by blast
  have 5: "history (fst (snd (query_turn example_settings empty_store failing_model (ascii ''hi'')
                          fresh_session)))
       = [HumanMessage (ascii ''hi''), AIMessage error_reply]"
    using append_butlast_last_id [OF h] 2 3 by (simp add: fresh_session_def trim_history_eq)
  have 6: "fst (stream_loop [] [Some (ascii ''Hel''), Some (ascii ''lo'')]) = ascii ''Hello''"
    using 1 by (simp add: content_or_empty_def ascii_def)
  show ?thesis using b 4 5 6 by blast
qed

text \<open>
  C4. For every folder, every splitter and all chunking parameters, the two lists that
  \<open>load_and_chunk\<close> returns have the same length, and at every position the metadata
  record is \<open>{"source": name}\<close> for the name of an input file that was read, and the chunk
  at that position is one of the chunks the splitter produced from the cleaned text of
  that file.
\<close>

theorem chunks_and_metadata_parallel:
  assumes "fst (load_and_chunk splitter folder chunk_size overlap) = (chunks, chunk_metas)"
  shows "length chunks = length chunk_metas
   \<and> (\<forall>i<length chunk_metas.
         \<exists>name raw. (name, Read_ok raw) \<in> set folder
           \<and> chunk_metas ! i = [ascii ''source'' \<mapsto> name]
           \<and> (chunk_metas ! i) (ascii ''source'') = Some name
           \<and> chunks ! i \<in> set (splitter chunk_size overlap (clean raw)))"
proof -
  define tagged where "tagged = tagged_chunks splitter chunk_size overlap (readable folder)"
  have c: "chunks = map fst tagged" and m: "chunk_metas = map snd tagged"
    using assms by (simp_all add: load_and_chunk_tagged tagged_def)
  have "\<exists>name raw. (name, Read_ok raw) \<in> set folder
           \<and> chunk_metas ! i = [ascii ''source'' \<mapsto> name]
           \<and> (chunk_metas ! i) (ascii ''source'') = Some name
           \<and> chunks ! i \<in> set (splitter chunk_size overlap (clean raw))"
    if "i < length chunk_metas" for i
  proof -
    have i: "i < length tagged" using that m by simp
    then have "(chunks ! i, chunk_metas ! i) \<in> set tagged"
      using c m by (simp add: nth_mem)
    then obtain name raw where "(name, raw) \<in> set (readable folder)"
      "chunk_metas ! i = source_of name"
      "chunks ! i \<in> set (splitter chunk_size overlap (clean raw))"
      unfolding tagged_def using tagged_chunks_member by blast
    then show ?thesis by (auto simp: readable_iff source_of_def)
  qed
  then show ?thesis using c m by simp
qed

theorem chunks_and_metadata_parallel_witness:
  "fst (load_and_chunk two_piece_splitter example_folder 8 2)
     = ([ascii ''Halifax\<newline>'', ascii ''x\<newline>kayak tours'', ascii ''WiFi in '', ascii ''n the lobby''],
        [[ascii ''source'' \<mapsto> ascii ''halifax.txt''], [ascii ''source'' \<mapsto> ascii ''halifax.txt''],
         [ascii ''source'' \<mapsto> ascii ''wifi.txt''], [ascii ''source'' \<mapsto> ascii ''wifi.txt'']])
   \<and> (\<exists>raw. (ascii ''wifi.txt'', Read_ok raw) \<in> set example_folder
         \<and> ascii ''WiFi in '' \<in> set (two_piece_splitter 8 2 (clean raw)))"
proof -
  let ?chunks = "[ascii ''Halifax\<newline>'', ascii ''x\<newline>kayak tours'', ascii ''WiFi in '', ascii ''n the lobby'']"
  let ?metas = "[[ascii ''source'' \<mapsto> ascii ''halifax.txt''], [ascii ''source'' \<mapsto> ascii ''halifax.txt''],
         [ascii ''source'' \<mapsto> ascii ''wifi.txt''], [ascii ''source'' \<mapsto> ascii ''wifi.txt'']]"
  have a: "fst (load_and_chunk two_piece_splitter example_folder 8 2) = (?chunks, ?metas)"
    by (simp add: example_load)
  note t = chunks_and_metadata_parallel
      [where splitter = two_piece_splitter and folder = example_folder and chunk_size = 8
         and overlap = 2 and chunks = ?chunks and chunk_metas = ?metas, OF a]
  have q: "\<forall>i<length ?metas.
         \<exists>name raw. (name, Read_ok raw) \<in> set example_folder
           \<and> ?metas ! i = [ascii ''source'' \<mapsto> name]
           \<and> (?metas ! i) (ascii ''source'') = Some name
           \<and> ?chunks ! i \<in> set (two_piece_splitter 8 2 (clean raw))"
    using t by (rule conjunct2)
  have "(2::nat) < length ?metas" by simp
  then have "\<exists>name raw. (name, Read_ok raw) \<in> set example_folder
           \<and> ?metas ! 2 = [ascii ''source'' \<mapsto> name]
           \<and> (?metas ! 2) (ascii ''source'') = Some name
           \<and> ?chunks ! 2 \<in> set (two_piece_splitter 8 2 (clean raw))"
    using q by blast
  then have "\<exists>raw. (ascii ''wifi.txt'', Read_ok raw) \<in> set example_folder
         \<and> ascii ''WiFi in '' \<in> set (two_piece_splitter 8 2 (clean raw))"
    by simp
  then show ?thesis using a by blast
qed



end
